theory Spec2Isabelle
  imports Complex_Main "HOL-Library.Sublist"
begin

section \<open>Numbers and errors\<close>

text \<open>
  The program is \<^verbatim>\<open>prep_MHD.py\<close>. Its command-line numbers are Python floats. They
  are read here as real numbers, the domain in which the specification states its
  run parameters (``positive real''): rounding, overflow and underflow of the
  binary format are outside this development, and so are the float arguments
  \<^verbatim>\<open>inf\<close> and \<^verbatim>\<open>nan\<close>. What is kept of the machine arithmetic is what
  happens at a zero divisor, which differs between the two number types of the code:

  \<^item> Python's own \<^verbatim>\<open>float / float\<close> raises \<^verbatim>\<open>ZeroDivisionError\<close>;
  \<^item> \<^verbatim>\<open>np.sqrt\<close> returns a \<^verbatim>\<open>numpy.float64\<close>, products with it stay
    \<^verbatim>\<open>numpy.float64\<close>, and dividing such a value by zero raises nothing: it
    yields an infinity or a NaN (and a warning on the error stream).
\<close>

datatype sysop =
  Copyfile | Mkstemp | OpenTemp | OpenSource | WriteTemp nat
  | CloseTemp | CloseFd | CloseSource | Remove | Move | Chmod

datatype error =
  ZeroDivisionError
  | FileNotFoundError sysop
  | SameFileError
  | OSError sysop

datatype np_float = Fin real | PosInf | NegInf | NaN

definition py_truediv :: "real \<Rightarrow> real \<Rightarrow> error + real" where
  "py_truediv a b = (if b = 0 then Inl ZeroDivisionError else Inr (a / b))"

definition np_truediv :: "real \<Rightarrow> real \<Rightarrow> np_float" where
  "np_truediv a b =
     (if b = 0 then (if 0 < a then PosInf else if a < 0 then NegInf else NaN)
      else Fin (a / b))"

section \<open>The object and its derived quantities\<close>

text \<open>
  The fields of class \<^verbatim>\<open>UpdateFlashParameterFile\<close>. The seven derived fields are
  initialised with the placeholder \<^verbatim>\<open>[]\<close>, which is \<open>None\<close> here; once computed
  they hold \<open>Some\<close> number.
\<close>

record UpdateFlashParameterFile =
  mach :: real
  mach_alfven :: real
  driving_scale :: real
  dumps_per_turnover :: real
  total_turn_overs :: real
  file_name :: string
  forcing_file :: "string option"
  debug :: bool
  B0 :: "np_float option"
  tmax :: "real option"
  checkpointFileIntervalTime :: "real option"
  plotFileIntervalTime :: "real option"
  movie_dt_dump :: "real option"
  particleFileIntervalTime :: "real option"
  dtmax :: "real option"

definition init ::
  "real \<Rightarrow> real \<Rightarrow> real \<Rightarrow> real \<Rightarrow> real \<Rightarrow> string option \<Rightarrow> string
     \<Rightarrow> UpdateFlashParameterFile" where
  "init mach_in mach_alfven_in driving_scale_in dumps_per_turnover_in total_turn_overs_in
        forcing_file_in file_name_in =
     \<lparr> mach = mach_in,
       mach_alfven = mach_alfven_in,
       driving_scale = driving_scale_in,
       dumps_per_turnover = dumps_per_turnover_in,
       total_turn_overs = total_turn_overs_in,
       file_name = file_name_in,
       forcing_file = forcing_file_in,
       debug = True,
       B0 = None,
       tmax = None,
       checkpointFileIntervalTime = None,
       plotFileIntervalTime = None,
       movie_dt_dump = None,
       particleFileIntervalTime = None,
       dtmax = None \<rparr>"

definition compute_B0 :: "UpdateFlashParameterFile \<Rightarrow> UpdateFlashParameterFile" where
  "compute_B0 self =
     (let rho_0 = (1::real);
          c_s = (1::real)
      in self\<lparr>B0 := Some (np_truediv (2 * c_s * sqrt (rho_0 * pi) * mach self)
                                     (mach_alfven self))\<rparr>)"

text \<open>
  The six assignments of \<^verbatim>\<open>compute_turnover_time_parameters\<close>, in order. The first
  two divide by a product of inputs and raise on zero; the exception ends the
  program, so the half-updated object is not returned.
\<close>

definition compute_turnover_time_parameters ::
  "UpdateFlashParameterFile \<Rightarrow> error + UpdateFlashParameterFile" where
  "compute_turnover_time_parameters self =
     (case py_truediv (total_turn_overs self) (driving_scale self * mach self) of
        Inl e \<Rightarrow> Inl e
      | Inr t \<Rightarrow>
         (case py_truediv t (total_turn_overs self * dumps_per_turnover self) of
            Inl e \<Rightarrow> Inl e
          | Inr c \<Rightarrow>
             (let p = c;
                  m = p / 10;
                  q = m;
                  d = m / 2
              in Inr (self\<lparr>tmax := Some t,
                             checkpointFileIntervalTime := Some c,
                             plotFileIntervalTime := Some p,
                             movie_dt_dump := Some m,
                             particleFileIntervalTime := Some q,
                             dtmax := Some d\<rparr>))))"

section \<open>Strings\<close>

text \<open>
  Python strings are lists of characters. The source file is read and written as it
  is stored, one \<open>char\<close> per byte: the text encoding is taken to be a one-byte
  one, so decoding and encoding are the identity and never fail.
\<close>

abbreviation NL :: char where "NL \<equiv> CHR 0x0A"
abbreviation CR :: char where "CR \<equiv> CHR 0x0D"
abbreviation TAB :: char where "TAB \<equiv> CHR 0x09"

text \<open>\<^verbatim>\<open>s.find(sub)\<close>: the lowest index at which \<open>sub\<close> occurs in \<open>s\<close>, or \<open>-1\<close>.\<close>

fun find_from :: "string \<Rightarrow> string \<Rightarrow> nat \<Rightarrow> int" where
  "find_from sub [] i = (if sub = [] then int i else - 1)"
| "find_from sub (c # cs) i =
     (if prefix sub (c # cs) then int i else find_from sub cs (Suc i))"

definition py_find :: "string \<Rightarrow> string \<Rightarrow> int" where
  "py_find s sub = find_from sub s 0"

text \<open>\<^verbatim>\<open>s[0:stop]\<close>: a negative \<open>stop\<close> counts from the end of the string.\<close>

definition py_slice0 :: "string \<Rightarrow> int \<Rightarrow> string" where
  "py_slice0 s stop =
     (if stop < 0 then take (nat (int (length s) + stop)) s else take (nat stop) s)"

text \<open>
  \<^verbatim>\<open>s.rstrip()\<close> removes trailing whitespace. Among the characters below 128 Python
  counts as whitespace the codes 9 to 13, 28 to 31 and 32.
\<close>

definition py_isspace :: "char \<Rightarrow> bool" where
  "py_isspace c =
     (let n = (of_char c :: nat) in (9 \<le> n \<and> n \<le> 13) \<or> (28 \<le> n \<and> n \<le> 31) \<or> n = 32)"

definition py_rstrip :: "string \<Rightarrow> string" where
  "py_rstrip s = rev (dropWhile py_isspace (rev s))"

text \<open>
  How Python renders a number inside an f-string is the work of the interpreter and
  of numpy, not of this program: the two renderings are parameters of the model. A
  field that still holds its placeholder \<^verbatim>\<open>[]\<close> renders as \<^verbatim>\<open>[]\<close>, and
  \<^verbatim>\<open>None\<close> as \<^verbatim>\<open>None\<close>.
\<close>

record py_format =
  str_float :: "real \<Rightarrow> string"
  str_float64 :: "np_float \<Rightarrow> string"

definition fmt_float :: "py_format \<Rightarrow> real option \<Rightarrow> string" where
  "fmt_float F v = (case v of None \<Rightarrow> ''[]'' | Some x \<Rightarrow> str_float F x)"

definition fmt_float64 :: "py_format \<Rightarrow> np_float option \<Rightarrow> string" where
  "fmt_float64 F v = (case v of None \<Rightarrow> ''[]'' | Some x \<Rightarrow> str_float64 F x)"

definition fmt_str :: "string option \<Rightarrow> string" where
  "fmt_str v = (case v of None \<Rightarrow> ''None'' | Some s \<Rightarrow> s)"

section \<open>The line rewriter\<close>

text \<open>
  Standard output is the list of the lines printed so far; \<^verbatim>\<open>print\<close> adds one.
\<close>

definition print :: "string \<Rightarrow> string list \<Rightarrow> string list" where
  "print s out = out @ [s]"

text \<open>
  Every branch of the three \<^verbatim>\<open>replace_\<close> methods has the same body, which differs
  only in the field it renders: report the line found (when \<^verbatim>\<open>debug\<close> is set), cut
  the line after the index that \<^verbatim>\<open>find("=")\<close> returns, append a space, the rendered
  value and a newline, and report the new line. \<open>replace_value\<close> is that body, with
  the rendered field as \<open>v\<close>.
\<close>

definition replace_value ::
  "UpdateFlashParameterFile \<Rightarrow> string list \<Rightarrow> string \<Rightarrow> string \<Rightarrow> string \<times> string list" where
  "replace_value self out line v =
     (let out1 = (if debug self = True
                  then print (file_name self @ '': found line:'' @ [TAB, TAB] @ py_rstrip line) out
                  else out);
          i = py_find line ''='';
          newline = py_slice0 line (i + 1) @ '' '' @ v @ [NL];
          line' = newline;
          out2 = (if debug self = True
                  then print (file_name self @ '': replaced with:'' @ [TAB] @ py_rstrip line') out1
                  else out1)
      in (line', out2))"

definition replace_magnetic_field ::
  "py_format \<Rightarrow> UpdateFlashParameterFile \<Rightarrow> string list \<Rightarrow> string
     \<Rightarrow> string \<times> UpdateFlashParameterFile \<times> string list" where
  "replace_magnetic_field F self0 out line =
     (let self = compute_B0 self0
      in if py_find line ''MagField_z'' = 0 \<or> py_find line ''st_MPzBmeanTarget'' = 0
         then (let (line', out') = replace_value self out line (fmt_float64 F (B0 self))
               in (line', self, out'))
         else (line, self, out))"

definition replace_forcing_file ::
  "UpdateFlashParameterFile \<Rightarrow> string list \<Rightarrow> string \<Rightarrow> string \<times> string list" where
  "replace_forcing_file self out line =
     (if py_find line ''st_infilename'' = 0
      then replace_value self out line (fmt_str (forcing_file self))
      else (line, out))"

text \<open>
  \<^verbatim>\<open>replace_turnover_times\<close> computes first, and the computation may raise; nothing
  has been printed by the method at that point.
\<close>

definition replace_turnover_times ::
  "py_format \<Rightarrow> UpdateFlashParameterFile \<Rightarrow> string list \<Rightarrow> string
     \<Rightarrow> error + string \<times> UpdateFlashParameterFile \<times> string list" where
  "replace_turnover_times F self0 out line =
     (case compute_turnover_time_parameters self0 of
        Inl e \<Rightarrow> Inl e
      | Inr self \<Rightarrow>
         (let (line', out') =
            (if py_find line ''movie_dt_dump'' = 0
               then replace_value self out line (fmt_float F (movie_dt_dump self))
             else if py_find line ''checkpointFileIntervalTime'' = 0
               then replace_value self out line (fmt_float F (checkpointFileIntervalTime self))
             else if py_find line ''plotFileIntervalTime'' = 0
               then replace_value self out line (fmt_float F (plotFileIntervalTime self))
             else if py_find line ''particleFileIntervalTime'' = 0
               then replace_value self out line (fmt_float F (particleFileIntervalTime self))
             else if py_find line ''dtmax'' = 0
               then replace_value self out line (fmt_float F (dtmax self))
             else if py_find line ''tmax'' = 0
               then replace_value self out line (fmt_float F (tmax self))
             else (line, out))
          in Inr (line', self, out')))"

text \<open>
  The body of the loop of \<^verbatim>\<open>update_flash_par\<close> up to the write: the three
  replacements in turn, the third only with a forcing file. What was printed before
  an exception stays printed.
\<close>

definition rewrite_line ::
  "py_format \<Rightarrow> UpdateFlashParameterFile \<Rightarrow> string list \<Rightarrow> string
     \<Rightarrow> (error + string \<times> UpdateFlashParameterFile) \<times> string list" where
  "rewrite_line F self out line =
     (let (line1, self1, out1) = replace_magnetic_field F self out line
      in case replace_turnover_times F self1 out1 line1 of
           Inl e \<Rightarrow> (Inl e, out1)
         | Inr (line2, self2, out2) \<Rightarrow>
            (if forcing_file self2 \<noteq> None
             then (let (line3, out3) = replace_forcing_file self2 out2 line2
                   in (Inr (line3, self2), out3))
             else (Inr (line2, self2), out2)))"

section \<open>Files\<close>

text \<open>
  The file system maps a path to a file: its bytes and its permission bits. The
  environment decides which system calls fail (\<open>faults\<close>), which name
  \<^verbatim>\<open>mkstemp\<close> picks (\<open>tmp_name\<close>) and with which permission bits a new file is
  born (\<open>create_mode\<close>). A path names one file: links are not modelled, and the
  program is the only process that touches the files.
\<close>

record file_entry =
  content :: string
  mode :: nat

record world =
  files :: "string \<Rightarrow> file_entry option"
  tmp_name :: string
  create_mode :: nat
  faults :: "sysop set"
  stdout :: "string list"

definition bind_io ::
  "(world \<Rightarrow> (error + 'a) \<times> world) \<Rightarrow> ('a \<Rightarrow> world \<Rightarrow> (error + 'b) \<times> world)
     \<Rightarrow> world \<Rightarrow> (error + 'b) \<times> world" where
  "bind_io m f w = (case m w of (Inl e, w') \<Rightarrow> (Inl e, w') | (Inr x, w') \<Rightarrow> f x w')"

text \<open>
  Text mode with the default \<^verbatim>\<open>newline=None\<close>: on reading, the line endings
  \<^verbatim>\<open>\r\n\<close> and \<^verbatim>\<open>\r\<close> arrive as \<^verbatim>\<open>\n\<close>; iterating over the file yields the
  lines, each with its \<^verbatim>\<open>\n\<close>, the last one without if the file does not end in
  one. On writing, \<^verbatim>\<open>\n\<close> is written as the platform's line separator, which is
  \<^verbatim>\<open>\n\<close> itself on the POSIX systems the script is written for.
\<close>

fun universal_newlines :: "string \<Rightarrow> string" where
  "universal_newlines [] = []"
| "universal_newlines [c] = (if c = CR then [NL] else [c])"
| "universal_newlines (c # d # cs) =
     (if c = CR \<and> d = NL then NL # universal_newlines cs
      else if c = CR then NL # universal_newlines (d # cs)
      else c # universal_newlines (d # cs))"

fun split_lines :: "string \<Rightarrow> string \<Rightarrow> string list" where
  "split_lines acc [] = (if acc = [] then [] else [acc])"
| "split_lines acc (c # cs) =
     (if c = NL then (acc @ [c]) # split_lines [] cs else split_lines (acc @ [c]) cs)"

definition py_lines :: "string \<Rightarrow> string list" where
  "py_lines bytes = split_lines [] (universal_newlines bytes)"

text \<open>\<^verbatim>\<open>mkstemp()\<close> creates an empty file of mode \<^verbatim>\<open>0o600\<close> under a name not in use.\<close>

definition mkstemp :: "world \<Rightarrow> (error + string) \<times> world" where
  "mkstemp w =
     (if Mkstemp \<in> faults w \<or> files w (tmp_name w) \<noteq> None then (Inl (OSError Mkstemp), w)
      else (Inr (tmp_name w),
            w\<lparr>files := (files w)(tmp_name w \<mapsto> \<lparr>content = [], mode = 6 * 8 ^ 2\<rparr>)\<rparr>))"

text \<open>\<^verbatim>\<open>open(path, 'w')\<close> truncates the file, or creates it.\<close>

definition open_w :: "string \<Rightarrow> world \<Rightarrow> (error + unit) \<times> world" where
  "open_w path w =
     (if OpenTemp \<in> faults w then (Inl (OSError OpenTemp), w)
      else (Inr (),
            w\<lparr>files := (files w)(path \<mapsto>
                 \<lparr>content = [],
                  mode = (case files w path of None \<Rightarrow> create_mode w | Some f \<Rightarrow> mode f)\<rparr>)\<rparr>))"

text \<open>
  \<^verbatim>\<open>open(path, 'r')\<close>, with the lines that iterating over the file yields. The file
  is read as it is when opened.
\<close>

definition open_r :: "string \<Rightarrow> world \<Rightarrow> (error + string list) \<times> world" where
  "open_r path w =
     (if OpenSource \<in> faults w then (Inl (OSError OpenSource), w)
      else case files w path of
             None \<Rightarrow> (Inl (FileNotFoundError OpenSource), w)
           | Some f \<Rightarrow> (Inr (py_lines (content f)), w))"

text \<open>
  \<^verbatim>\<open>ftemp.write(line)\<close>, the \<open>n\<close>-th write of the loop counted from 0. Buffering is
  not modelled: a write that succeeds is in the file. The program writes only to the
  temporary file it has just created; were the path without a file, the write would
  change nothing.
\<close>

definition write_temp :: "string \<Rightarrow> nat \<Rightarrow> string \<Rightarrow> world \<Rightarrow> (error + unit) \<times> world" where
  "write_temp path n line w =
     (if WriteTemp n \<in> faults w then (Inl (OSError (WriteTemp n)), w)
      else case files w path of
             None \<Rightarrow> (Inr (), w)
           | Some f \<Rightarrow> (Inr (), w\<lparr>files := (files w)(path \<mapsto> f\<lparr>content := content f @ line\<rparr>)\<rparr>))"

definition close_handle :: "sysop \<Rightarrow> world \<Rightarrow> (error + unit) \<times> world" where
  "close_handle h w = (if h \<in> faults w then (Inl (OSError h), w) else (Inr (), w))"

definition remove_file :: "string \<Rightarrow> world \<Rightarrow> (error + unit) \<times> world" where
  "remove_file path w =
     (if Remove \<in> faults w then (Inl (OSError Remove), w)
      else case files w path of
             None \<Rightarrow> (Inl (FileNotFoundError Remove), w)
           | Some f \<Rightarrow> (Inr (), w\<lparr>files := (files w)(path := None)\<rparr>))"

text \<open>
  \<^verbatim>\<open>shutil.move(src, dst)\<close> onto a path that is not a directory: \<open>dst\<close> becomes
  the file that \<open>src\<close> was, with its permission bits, and \<open>src\<close> is gone.
\<close>

definition move :: "string \<Rightarrow> string \<Rightarrow> world \<Rightarrow> (error + unit) \<times> world" where
  "move src dst w =
     (if Move \<in> faults w then (Inl (OSError Move), w)
      else case files w src of
             None \<Rightarrow> (Inl (FileNotFoundError Move), w)
           | Some f \<Rightarrow> (Inr (), w\<lparr>files := (files w)(src := None, dst \<mapsto> f)\<rparr>))"

definition chmod :: "string \<Rightarrow> nat \<Rightarrow> world \<Rightarrow> (error + unit) \<times> world" where
  "chmod path m w =
     (if Chmod \<in> faults w then (Inl (OSError Chmod), w)
      else case files w path of
             None \<Rightarrow> (Inl (FileNotFoundError Chmod), w)
           | Some f \<Rightarrow> (Inr (), w\<lparr>files := (files w)(path \<mapsto> f\<lparr>mode := m\<rparr>)\<rparr>))"


section \<open>Rewriting the file\<close>

text \<open>
  The loop of \<^verbatim>\<open>update_flash_par\<close> over the lines still to be read; \<open>n\<close> counts the
  lines already written.
\<close>

fun write_lines ::
  "py_format \<Rightarrow> string \<Rightarrow> nat \<Rightarrow> string list \<Rightarrow> UpdateFlashParameterFile \<Rightarrow> world
     \<Rightarrow> (error + UpdateFlashParameterFile) \<times> world" where
  "write_lines F tempfile n [] self w = (Inr self, w)"
| "write_lines F tempfile n (line # rest) self w =
     (case rewrite_line F self (stdout w) line of
        (Inl e, out) \<Rightarrow> (Inl e, w\<lparr>stdout := out\<rparr>)
      | (Inr (line', self'), out) \<Rightarrow>
         (case write_temp tempfile n line' (w\<lparr>stdout := out\<rparr>) of
            (Inl e, w') \<Rightarrow> (Inl e, w')
          | (Inr u, w') \<Rightarrow> write_lines F tempfile (Suc n) rest self' w'))"

definition update_flash_par ::
  "py_format \<Rightarrow> UpdateFlashParameterFile \<Rightarrow> world
     \<Rightarrow> (error + UpdateFlashParameterFile) \<times> world" where
  "update_flash_par F self =
     bind_io mkstemp (\<lambda>tempfile.
     bind_io (open_w tempfile) (\<lambda>ftemp.
     bind_io (open_r (file_name self)) (\<lambda>f.
     bind_io (write_lines F tempfile 0 f self) (\<lambda>self'.
     bind_io (close_handle CloseTemp) (\<lambda>u1.
     bind_io (close_handle CloseFd) (\<lambda>u2.
     bind_io (close_handle CloseSource) (\<lambda>u3.
     bind_io (remove_file (file_name self')) (\<lambda>u4.
     bind_io (move tempfile (file_name self')) (\<lambda>u5.
     bind_io (chmod (file_name self') 644) (\<lambda>u6.
     (\<lambda>w. (Inr self', w))))))))))))"



section \<open>The specification's rule for a line\<close>

text \<open>
  The specification describes the rewriter by a table. The key token of a line is
  the text before its first \<^verbatim>\<open>=\<close> (the whole line if there is none); a key
  matches when it is a prefix of the key token, anchored at column 0; the keys are
  tried in the order of the table and the first match wins. The key
  \<^verbatim>\<open>st_infilename\<close> is in the table only with a forcing file. Beside each key
  stands the rendered value that replaces the old one.
\<close>

definition key_token :: "string \<Rightarrow> string" where
  "key_token line = takeWhile (\<lambda>c. c \<noteq> CHR ''='') line"

definition target_table :: "py_format \<Rightarrow> UpdateFlashParameterFile \<Rightarrow> (string \<times> string) list" where
  "target_table F self =
     [(''MagField_z'', fmt_float64 F (B0 self)),
      (''st_MPzBmeanTarget'', fmt_float64 F (B0 self)),
      (''movie_dt_dump'', fmt_float F (movie_dt_dump self)),
      (''checkpointFileIntervalTime'', fmt_float F (checkpointFileIntervalTime self)),
      (''plotFileIntervalTime'', fmt_float F (plotFileIntervalTime self)),
      (''particleFileIntervalTime'', fmt_float F (particleFileIntervalTime self)),
      (''dtmax'', fmt_float F (dtmax self)),
      (''tmax'', fmt_float F (tmax self))]
     @ (case forcing_file self of None \<Rightarrow> [] | Some f \<Rightarrow> [(''st_infilename'', f)])"

definition first_match :: "(string \<times> string) list \<Rightarrow> string \<Rightarrow> (string \<times> string) option" where
  "first_match table line = find (\<lambda>(k, v). prefix k (key_token line)) table"

text \<open>
  The line that the loop writes for a line it has read: the first component of what
  \<open>rewrite_line\<close> returns.
\<close>

definition rewritten :: "py_format \<Rightarrow> UpdateFlashParameterFile \<Rightarrow> string \<Rightarrow> string" where
  "rewritten F self line =
     (case fst (rewrite_line F self [] line) of Inl e \<Rightarrow> line | Inr (line', self') \<Rightarrow> line')"

section \<open>A sample run\<close>

text \<open>
  The run of the documentation, \<^verbatim>\<open>prep_MHD -m 10 -ma 1.0\<close> with the defaults for
  the other arguments, and a rendering of numbers that agrees with Python's at
  \<open>0.5\<close>.
\<close>

definition example_format :: py_format where
  "example_format =
     \<lparr>str_float = (\<lambda>x. if x = 1 / 2 then ''0.5'' else ''0.0005''),
      str_float64 = (\<lambda>x. ''35.44907701811032'')\<rparr>"

definition example_self :: UpdateFlashParameterFile where
  "example_self = init 10 1 2 10 10 None ''flash.par''"

definition example_derived :: UpdateFlashParameterFile where
  "example_derived =
     example_self\<lparr>B0 := Some (Fin (20 * sqrt pi)),
                  tmax := Some (1 / 2),
                  checkpointFileIntervalTime := Some (1 / 200),
                  plotFileIntervalTime := Some (1 / 200),
                  movie_dt_dump := Some (1 / 2000),
                  particleFileIntervalTime := Some (1 / 2000),
                  dtmax := Some (1 / 4000)\<rparr>"

text \<open>
  A file system holding the parameter file \<^verbatim>\<open>flash.par\<close> with the given bytes and
  nothing else, in which no system call fails; and the command-line arguments of the
  sample run for a given \<open>mach\<close> and \<open>mach_alfven\<close>.
\<close>

definition world_with :: "string \<Rightarrow> world" where
  "world_with bytes =
     \<lparr>files = [''flash.par'' \<mapsto> \<lparr>content = bytes, mode = 6 * 8 ^ 2 + 4 * 8 + 4\<rparr>],
      tmp_name = ''/tmp/tmpk3x9pq'',
      create_mode = 6 * 8 ^ 2 + 4 * 8 + 4,
      faults = {},
      stdout = []\<rparr>"


section \<open>Bounds for \<open>\<pi>\<close>\<close>






section \<open>Searching and cutting a line\<close>

lemma find_from_range: "find_from sub s i = - 1 \<or> int i \<le> find_from sub s i"
  by (induction s arbitrary: i) (auto, force)

lemma py_find_0_iff: "py_find s sub = 0 \<longleftrightarrow> prefix sub s"
proof (cases s)
  case Nil
  then show ?thesis by (simp add: py_find_def)
next
  case (Cons c cs)
  show ?thesis
    using find_from_range[of sub cs "Suc 0"]
    by (auto simp: py_find_def Cons)
qed

lemma find_from_char:
  "find_from [c] s i = (if c \<in> set s then int (i + length (takeWhile (\<lambda>x. x \<noteq> c) s)) else - 1)"
  by (induction s arbitrary: i) auto

lemma py_find_char:
  "py_find s [c] = (if c \<in> set s then int (length (takeWhile (\<lambda>x. x \<noteq> c) s)) else - 1)"
  by (simp add: py_find_def find_from_char)

lemma take_Suc_takeWhile:
  "c \<in> set s \<Longrightarrow> take (Suc (length (takeWhile (\<lambda>x. x \<noteq> c) s))) s = takeWhile (\<lambda>x. x \<noteq> c) s @ [c]"
  by (induction s) auto

lemma slice_upto_eq:
  "py_slice0 line (py_find line ''='' + 1) =
     (if CHR ''='' \<in> set line then takeWhile (\<lambda>x. x \<noteq> CHR ''='') line @ ''='' else [])"
  by (simp add: py_slice0_def py_find_char take_Suc_takeWhile nat_add_distrib)

lemma fst_replace_value:
  "fst (replace_value self out line v) =
     (if CHR ''='' \<in> set line then takeWhile (\<lambda>x. x \<noteq> CHR ''='') line @ ''='' else [])
       @ '' '' @ v @ [NL]"
  by (simp add: replace_value_def Let_def slice_upto_eq)

lemma prefix_takeWhile_key:
  assumes "c \<notin> set k"
  shows "prefix k (takeWhile (\<lambda>x. x \<noteq> c) s) \<longleftrightarrow> prefix k s"
  using assms
proof (induction s arbitrary: k)
  case Nil
  then show ?case by simp
next
  case (Cons a s)
  then show ?case by (cases k) auto
qed

lemma prefix_takeWhile_app:
  assumes "c \<notin> set k"
  shows "prefix k (takeWhile (\<lambda>x. x \<noteq> c) s @ c # r) \<longleftrightarrow> prefix k (takeWhile (\<lambda>x. x \<noteq> c) s)"
  using assms
proof (induction s arbitrary: k)
  case Nil
  then show ?case by (cases k) auto
next
  case (Cons a s)
  then show ?case by (cases k) auto
qed

lemma prefix_replace_value:
  assumes "CHR ''='' \<notin> set k" "k \<noteq> []" "hd k \<noteq> CHR '' ''"
  shows "prefix k (fst (replace_value self out line v)) \<longleftrightarrow> CHR ''='' \<in> set line \<and> prefix k line"
proof (cases "CHR ''='' \<in> set line")
  case True
  then show ?thesis
    using assms(1) by (simp add: fst_replace_value prefix_takeWhile_app prefix_takeWhile_key)
next
  case False
  then show ?thesis using assms(2,3) by (cases k) (auto simp: fst_replace_value)
qed

lemma prefix_exclusive: "prefix a l \<Longrightarrow> \<not> prefix a b \<Longrightarrow> \<not> prefix b a \<Longrightarrow> prefix b l = False"
  using prefix_same_cases by blast

section \<open>One line\<close>

lemma prefix_key_token:
  "CHR ''='' \<notin> set k \<Longrightarrow> prefix k (key_token line) \<longleftrightarrow> prefix k line"
  by (simp add: key_token_def prefix_takeWhile_key)

lemma replace_value_upd:
  "replace_value (s\<lparr>B0 := b\<rparr>) = replace_value s"
  "replace_value (s\<lparr>tmax := t\<rparr>) = replace_value s"
  "replace_value (s\<lparr>checkpointFileIntervalTime := t\<rparr>) = replace_value s"
  "replace_value (s\<lparr>plotFileIntervalTime := t\<rparr>) = replace_value s"
  "replace_value (s\<lparr>movie_dt_dump := t\<rparr>) = replace_value s"
  "replace_value (s\<lparr>particleFileIntervalTime := t\<rparr>) = replace_value s"
  "replace_value (s\<lparr>dtmax := t\<rparr>) = replace_value s"
  by (simp_all add: replace_value_def fun_eq_iff)

lemma replace_magnetic_field_eq:
  "replace_magnetic_field F self out line =
     (if prefix ''MagField_z'' line \<or> prefix ''st_MPzBmeanTarget'' line
      then (fst (replace_value self out line (fmt_float64 F (B0 (compute_B0 self)))),
            compute_B0 self,
            snd (replace_value self out line (fmt_float64 F (B0 (compute_B0 self)))))
      else (line, compute_B0 self, out))"
  by (simp add: replace_magnetic_field_def py_find_0_iff Let_def split_def
      replace_value_upd compute_B0_def)

lemma replace_turnover_times_eq:
  assumes "compute_turnover_time_parameters self = Inr self'"
  shows "replace_turnover_times F self out line =
     Inr (if prefix ''movie_dt_dump'' line
            then (fst (replace_value self out line (fmt_float F (movie_dt_dump self'))), self',
                  snd (replace_value self out line (fmt_float F (movie_dt_dump self'))))
          else if prefix ''checkpointFileIntervalTime'' line
            then (fst (replace_value self out line (fmt_float F (checkpointFileIntervalTime self'))), self',
                  snd (replace_value self out line (fmt_float F (checkpointFileIntervalTime self'))))
          else if prefix ''plotFileIntervalTime'' line
            then (fst (replace_value self out line (fmt_float F (plotFileIntervalTime self'))), self',
                  snd (replace_value self out line (fmt_float F (plotFileIntervalTime self'))))
          else if prefix ''particleFileIntervalTime'' line
            then (fst (replace_value self out line (fmt_float F (particleFileIntervalTime self'))), self',
                  snd (replace_value self out line (fmt_float F (particleFileIntervalTime self'))))
          else if prefix ''dtmax'' line
            then (fst (replace_value self out line (fmt_float F (dtmax self'))), self',
                  snd (replace_value self out line (fmt_float F (dtmax self'))))
          else if prefix ''tmax'' line
            then (fst (replace_value self out line (fmt_float F (tmax self'))), self',
                  snd (replace_value self out line (fmt_float F (tmax self'))))
          else (line, self', out))"
proof -
  have "replace_value self' = replace_value self"
    using assms
    by (auto simp: compute_turnover_time_parameters_def py_truediv_def Let_def replace_value_upd
        split: if_splits)
  then show ?thesis
    using assms by (simp add: replace_turnover_times_def py_find_0_iff split_def Let_def)
qed

lemma replace_forcing_file_eq:
  "replace_forcing_file self out line =
     (if prefix ''st_infilename'' line
      then replace_value self out line (fmt_str (forcing_file self))
      else (line, out))"
  by (simp add: replace_forcing_file_def py_find_0_iff)

lemma turnover_fields:
  assumes "compute_turnover_time_parameters self = Inr self'"
  shows "forcing_file self' = forcing_file self" "B0 self' = B0 self"
    "replace_value self' = replace_value self"
  using assms
  by (auto simp: compute_turnover_time_parameters_def py_truediv_def Let_def replace_value_upd
        split: if_splits)

lemma rewrite_line_table:
  assumes c: "compute_turnover_time_parameters (compute_B0 self) = Inr self'"
  shows "rewrite_line F self out line =
     (case first_match (target_table F self') line of
        None \<Rightarrow> (Inr (line, self'), out)
      | Some (k, v) \<Rightarrow>
          (Inr (fst (replace_value self' out line v), self'),
           snd (replace_value self' out line v)))"
proof -
  note tf = turnover_fields[OF c]
  have rv: "replace_value (compute_B0 self) = replace_value self"
    by (simp add: compute_B0_def replace_value_upd)
  have ff: "forcing_file (compute_B0 self) = forcing_file self"
    by (simp add: compute_B0_def)
  consider
    (k1) "prefix ''MagField_z'' line"
    | (k2) "prefix ''st_MPzBmeanTarget'' line"
    | (k3) "prefix ''movie_dt_dump'' line"
    | (k4) "prefix ''checkpointFileIntervalTime'' line"
    | (k5) "prefix ''plotFileIntervalTime'' line"
    | (k6) "prefix ''particleFileIntervalTime'' line"
    | (k7) "prefix ''dtmax'' line"
    | (k8) "prefix ''tmax'' line"
    | (k9) "prefix ''st_infilename'' line"
    | (none) "\<not> prefix ''MagField_z'' line" "\<not> prefix ''st_MPzBmeanTarget'' line"
        "\<not> prefix ''movie_dt_dump'' line" "\<not> prefix ''checkpointFileIntervalTime'' line"
        "\<not> prefix ''plotFileIntervalTime'' line" "\<not> prefix ''particleFileIntervalTime'' line"
        "\<not> prefix ''dtmax'' line" "\<not> prefix ''tmax'' line" "\<not> prefix ''st_infilename'' line"
    by blast
  then show ?thesis
  proof cases
    case k1
    show ?thesis
      using k1
      by (simp add: rewrite_line_def replace_magnetic_field_eq replace_turnover_times_eq[OF c]
          replace_forcing_file_eq first_match_def target_table_def prefix_key_token
          prefix_replace_value prefix_exclusive[OF k1] tf rv ff split_def Let_def fmt_str_def
          split: option.split)
  next
    case k2
    show ?thesis
      using k2
      by (simp add: rewrite_line_def replace_magnetic_field_eq replace_turnover_times_eq[OF c]
          replace_forcing_file_eq first_match_def target_table_def prefix_key_token
          prefix_replace_value prefix_exclusive[OF k2] tf rv ff split_def Let_def fmt_str_def
          split: option.split)
  next
    case k3
    show ?thesis
      using k3
      by (simp add: rewrite_line_def replace_magnetic_field_eq replace_turnover_times_eq[OF c]
          replace_forcing_file_eq first_match_def target_table_def prefix_key_token
          prefix_replace_value prefix_exclusive[OF k3] tf rv ff split_def Let_def fmt_str_def
          split: option.split)
  next
    case k4
    show ?thesis
      using k4
      by (simp add: rewrite_line_def replace_magnetic_field_eq replace_turnover_times_eq[OF c]
          replace_forcing_file_eq first_match_def target_table_def prefix_key_token
          prefix_replace_value prefix_exclusive[OF k4] tf rv ff split_def Let_def fmt_str_def
          split: option.split)
  next
    case k5
    show ?thesis
      using k5
      by (simp add: rewrite_line_def replace_magnetic_field_eq replace_turnover_times_eq[OF c]
          replace_forcing_file_eq first_match_def target_table_def prefix_key_token
          prefix_replace_value prefix_exclusive[OF k5] tf rv ff split_def Let_def fmt_str_def
          split: option.split)
  next
    case k6
    show ?thesis
      using k6
      by (simp add: rewrite_line_def replace_magnetic_field_eq replace_turnover_times_eq[OF c]
          replace_forcing_file_eq first_match_def target_table_def prefix_key_token
          prefix_replace_value prefix_exclusive[OF k6] tf rv ff split_def Let_def fmt_str_def
          split: option.split)
  next
    case k7
    show ?thesis
      using k7
      by (simp add: rewrite_line_def replace_magnetic_field_eq replace_turnover_times_eq[OF c]
          replace_forcing_file_eq first_match_def target_table_def prefix_key_token
          prefix_replace_value prefix_exclusive[OF k7] tf rv ff split_def Let_def fmt_str_def
          split: option.split)
  next
    case k8
    show ?thesis
      using k8
      by (simp add: rewrite_line_def replace_magnetic_field_eq replace_turnover_times_eq[OF c]
          replace_forcing_file_eq first_match_def target_table_def prefix_key_token
          prefix_replace_value prefix_exclusive[OF k8] tf rv ff split_def Let_def fmt_str_def
          split: option.split)
  next
    case k9
    show ?thesis
      using k9
      by (simp add: rewrite_line_def replace_magnetic_field_eq replace_turnover_times_eq[OF c]
          replace_forcing_file_eq first_match_def target_table_def prefix_key_token
          prefix_replace_value prefix_exclusive[OF k9] tf rv ff split_def Let_def fmt_str_def
          split: option.split)
  next
    case none
    then show ?thesis
      by (simp add: rewrite_line_def replace_magnetic_field_eq replace_turnover_times_eq[OF c]
          replace_forcing_file_eq first_match_def target_table_def prefix_key_token
          tf rv ff split_def Let_def split: option.split)
  qed
qed



lemma rewrite_line_Inr:
  assumes "rewrite_line F self out line = (Inr (l, s), out')"
  shows "compute_turnover_time_parameters (compute_B0 self) = Inr s"
  using assms
  by (auto simp: rewrite_line_def replace_magnetic_field_def replace_turnover_times_def
      Let_def split_def split: sum.splits if_splits)

lemma rewrite_line_Inl:
  assumes "rewrite_line F self out line = (Inl e, out')"
  shows "e = ZeroDivisionError \<and> compute_turnover_time_parameters (compute_B0 self) = Inl ZeroDivisionError"
  using assms
  by (auto simp: rewrite_line_def replace_magnetic_field_def replace_turnover_times_def
      compute_turnover_time_parameters_def py_truediv_def
      Let_def split_def split: sum.splits if_splits)

lemma derived_file_name:
  assumes "compute_turnover_time_parameters (compute_B0 self) = Inr s"
  shows "file_name s = file_name self"
  using assms
  by (auto simp: compute_turnover_time_parameters_def py_truediv_def Let_def compute_B0_def
        split: if_splits)

lemma derived_idem:
  assumes "compute_turnover_time_parameters (compute_B0 self) = Inr s"
  shows "compute_turnover_time_parameters (compute_B0 s) = Inr s"
  using assms
  by (auto simp: compute_turnover_time_parameters_def py_truediv_def Let_def compute_B0_def
        split: if_splits)

lemma write_temp_files:
  assumes "write_temp t n l w = (r, w')"
  shows "p \<noteq> t \<Longrightarrow> files w' p = files w p" "faults w' = faults w" "tmp_name w' = tmp_name w"
  using assms by (auto simp: write_temp_def split: if_splits option.splits)

lemma write_lines_other:
  assumes "write_lines F t n ls self w = (r, w')" "p \<noteq> t"
  shows "files w' p = files w p"
  using assms
proof (induction ls arbitrary: n self w)
  case Nil
  then show ?case by simp
next
  case (Cons l ls)
  show ?case
  proof (cases "rewrite_line F self (stdout w) l")
    case (Pair a out)
    show ?thesis
    proof (cases a)
      case (Inl e)
      with Pair Cons.prems show ?thesis by auto
    next
      case (Inr b)
      obtain l' s where b: "b = (l', s)" by (cases b)
      obtain r1 w1 where wt: "write_temp t n l' (w\<lparr>stdout := out\<rparr>) = (r1, w1)"
        by (cases "write_temp t n l' (w\<lparr>stdout := out\<rparr>)")
      have f1: "files w1 p = files w p"
        using write_temp_files(1)[OF wt Cons.prems(2)] by simp
      show ?thesis
      proof (cases r1)
        case (Inl e)
        with Pair Inr b wt Cons.prems f1 show ?thesis by auto
      next
        case (Inr u)
        with Pair \<open>a = Inr b\<close> b wt Cons.prems
        have "write_lines F t (Suc n) ls s w1 = (r, w')" by simp
        from Cons.IH[OF this Cons.prems(2)] f1 show ?thesis by simp
      qed
    qed
  qed
qed

section \<open>The loop and the file\<close>

lemma rewritten_table:
  assumes c: "compute_turnover_time_parameters (compute_B0 self) = Inr self'"
  shows "rewritten F self line =
     (case first_match (target_table F self') line of
        None \<Rightarrow> line
      | Some (k, v) \<Rightarrow>
          (if CHR ''='' \<in> set line then takeWhile (\<lambda>x. x \<noteq> CHR ''='') line @ ''='' else [])
            @ '' '' @ v @ [NL])"
  by (simp add: rewritten_def rewrite_line_table[OF c] fst_replace_value split: option.split)

lemma rewrite_line_fst:
  assumes c: "compute_turnover_time_parameters (compute_B0 self) = Inr self'"
  shows "fst (rewrite_line F self out line) = Inr (rewritten F self line, self')"
  by (simp add: rewritten_def rewrite_line_table[OF c] fst_replace_value split: option.split)

lemma rewritten_derived:
  assumes c: "compute_turnover_time_parameters (compute_B0 self) = Inr self'"
  shows "rewritten F self' line = rewritten F self line"
  by (simp add: rewritten_table[OF c] rewritten_table[OF derived_idem[OF c]])

lemma write_lines_ok:
  assumes c: "compute_turnover_time_parameters (compute_B0 self) = Inr self'"
    and "files w t = Some f"
    and "\<forall>i<length ls. WriteTemp (n + i) \<notin> faults w"
  shows "\<exists>s out'. write_lines F t n ls self w =
           (Inr s, w\<lparr>files := (files w)(t \<mapsto> f\<lparr>content := content f @ concat (map (rewritten F self) ls)\<rparr>),
                     stdout := out'\<rparr>)
          \<and> file_name s = file_name self"
  using assms
proof (induction ls arbitrary: n self w f)
  case Nil
  have "(files w)(t \<mapsto> f) = files w" using Nil.prems(2) by (simp add: fun_upd_idem)
  then have "w\<lparr>files := (files w)(t \<mapsto> f\<lparr>content := content f @ concat (map (rewritten F self) [])\<rparr>),
              stdout := stdout w\<rparr> = w"
    by simp
  then have "write_lines F t n [] self w =
      (Inr self, w\<lparr>files := (files w)(t \<mapsto> f\<lparr>content := content f @ concat (map (rewritten F self) [])\<rparr>),
              stdout := stdout w\<rparr>)"
    by (simp only: write_lines.simps)
  then show ?case by blast
next
  case (Cons l ls)
  note c = Cons.prems(1)
  obtain a out1 where rl: "rewrite_line F self (stdout w) l = (a, out1)"
    by (cases "rewrite_line F self (stdout w) l")
  with rewrite_line_fst[OF c, of F "stdout w" l]
  have a: "a = Inr (rewritten F self l, self')" by simp
  let ?f1 = "f\<lparr>content := content f @ rewritten F self l\<rparr>"
  let ?w1 = "w\<lparr>stdout := out1, files := (files w)(t \<mapsto> ?f1)\<rparr>"
  have nf: "WriteTemp n \<notin> faults w" using Cons.prems(3) by force
  have wt: "write_temp t n (rewritten F self l) (w\<lparr>stdout := out1\<rparr>) = (Inr (), ?w1)"
    using nf Cons.prems(2) by (simp add: write_temp_def)
  have step: "write_lines F t n (l # ls) self w = write_lines F t (Suc n) ls self' ?w1"
    by (simp add: rl a wt)
  have c': "compute_turnover_time_parameters (compute_B0 self') = Inr self'"
    by (rule derived_idem[OF c])
  have f1: "files ?w1 t = Some ?f1" by simp
  have nf': "\<forall>i<length ls. WriteTemp (Suc n + i) \<notin> faults ?w1"
    using Cons.prems(3) by force
  from Cons.IH[OF c' f1 nf']
  obtain s out' where
    ih: "write_lines F t (Suc n) ls self' ?w1 =
           (Inr s, ?w1\<lparr>files := (files ?w1)(t \<mapsto> ?f1\<lparr>content := content ?f1 @ concat (map (rewritten F self') ls)\<rparr>),
                     stdout := out'\<rparr>)"
      and fn: "file_name s = file_name self'"
    by blast
  have rd: "map (rewritten F self') ls = map (rewritten F self) ls"
    by (simp add: rewritten_derived[OF c])
  have "write_lines F t n (l # ls) self w =
      (Inr s, w\<lparr>files := (files w)(t \<mapsto> f\<lparr>content := content f @ concat (map (rewritten F self) (l # ls))\<rparr>),
                stdout := out'\<rparr>)"
    unfolding step ih rd by simp
  moreover have "file_name s = file_name self"
    using fn derived_file_name[OF c] by simp
  ultimately show ?case by blast
qed



lemma bind_io_Inr: "m w = (Inr x, w') \<Longrightarrow> bind_io m f w = f x w'"
  by (simp add: bind_io_def)

lemma bind_io_Inl: "m w = (Inl e, w') \<Longrightarrow> bind_io m f w = (Inl e, w')"
  by (simp add: bind_io_def)

lemma update_flash_par_until_move:
  assumes c: "compute_turnover_time_parameters (compute_B0 self) = Inr self'"
    and src: "files w (file_name self) = Some f"
    and tmp: "files w (tmp_name w) = None"
    and nf: "faults w \<subseteq> {Move, Chmod}"
  shows "\<exists>s out'. update_flash_par F self w =
           bind_io (move (tmp_name w) (file_name self)) (\<lambda>u5.
           bind_io (chmod (file_name self) 644) (\<lambda>u6.
           (\<lambda>w. (Inr s, w))))
             (w\<lparr>files := (files w)(tmp_name w \<mapsto>
                        \<lparr>content = concat (map (rewritten F self) (py_lines (content f))),
                         mode = 6 * 8 ^ 2\<rparr>,
                      file_name self := None),
               stdout := out'\<rparr>)"
proof -
  let ?t = "tmp_name w"
  let ?n = "file_name self"
  let ?e = "\<lparr>content = [], mode = 6 * 8 ^ 2\<rparr>"
  let ?w1 = "w\<lparr>files := (files w)(?t \<mapsto> ?e)\<rparr>"
  have ne: "?t \<noteq> ?n" using src tmp by auto
  have m: "mkstemp w = (Inr ?t, ?w1)" using tmp nf by (auto simp: mkstemp_def)
  have ow: "open_w ?t ?w1 = (Inr (), ?w1)" using nf by (auto simp: open_w_def)
  have orr: "open_r ?n ?w1 = (Inr (py_lines (content f)), ?w1)"
    using nf src ne by (auto simp: open_r_def)
  have "files ?w1 ?t = Some ?e" by simp
  moreover have "\<forall>i<length (py_lines (content f)). WriteTemp (0 + i) \<notin> faults ?w1"
    using nf by auto
  ultimately obtain s out' where
    wl: "write_lines F ?t 0 (py_lines (content f)) self ?w1 =
           (Inr s, ?w1\<lparr>files := (files ?w1)(?t \<mapsto> ?e\<lparr>content := content ?e @ concat (map (rewritten F self) (py_lines (content f)))\<rparr>),
                     stdout := out'\<rparr>)"
    and fn: "file_name s = ?n"
    using write_lines_ok[OF c, of ?w1 ?t ?e "py_lines (content f)" 0 F] by blast
  let ?c = "concat (map (rewritten F self) (py_lines (content f)))"
  let ?w2 = "w\<lparr>files := (files w)(?t \<mapsto> \<lparr>content = ?c, mode = 6 * 8 ^ 2\<rparr>), stdout := out'\<rparr>"
  have wl': "write_lines F ?t 0 (py_lines (content f)) self ?w1 = (Inr s, ?w2)"
    unfolding wl by simp
  have cl: "close_handle h ?w2 = (Inr (), ?w2)" if "h \<in> {CloseTemp, CloseFd, CloseSource}" for h
    using nf that by (auto simp: close_handle_def)
  let ?w3 = "w\<lparr>files := (files w)(?t \<mapsto> \<lparr>content = ?c, mode = 6 * 8 ^ 2\<rparr>, ?n := None),
               stdout := out'\<rparr>"
  have rm: "remove_file (file_name s) ?w2 = (Inr (), ?w3)"
    using nf src ne by (auto simp: remove_file_def fn)
  have "update_flash_par F self w =
           bind_io (move ?t (file_name s)) (\<lambda>u5.
           bind_io (chmod (file_name s) 644) (\<lambda>u6.
           (\<lambda>w. (Inr s, w)))) ?w3"
    unfolding update_flash_par_def
    by (simp only: bind_io_Inr[of mkstemp w, OF m] bind_io_Inr[of "open_w ?t" ?w1, OF ow]
        bind_io_Inr[of "open_r ?n" ?w1, OF orr]
        bind_io_Inr[of "write_lines F ?t 0 (py_lines (content f)) self" ?w1, OF wl']
        bind_io_Inr[of "close_handle CloseTemp" ?w2, OF cl]
        bind_io_Inr[of "close_handle CloseFd" ?w2, OF cl]
        bind_io_Inr[of "close_handle CloseSource" ?w2, OF cl]
        bind_io_Inr[of "remove_file (file_name s)" ?w2, OF rm] insertI1 insertI2)
  then show ?thesis unfolding fn by blast
qed

lemma update_flash_par_ok:
  assumes c: "compute_turnover_time_parameters (compute_B0 self) = Inr self'"
    and src: "files w (file_name self) = Some f"
    and tmp: "files w (tmp_name w) = None"
    and nf: "faults w = {}"
  shows "\<exists>s out'. update_flash_par F self w =
           (Inr s,
            w\<lparr>files := (files w)(tmp_name w := None,
                      file_name self \<mapsto>
                        \<lparr>content = concat (map (rewritten F self) (py_lines (content f))),
                         mode = 644\<rparr>),
              stdout := out'\<rparr>)"
proof -
  let ?t = "tmp_name w"
  let ?n = "file_name self"
  let ?c = "concat (map (rewritten F self) (py_lines (content f)))"
  have ne: "?t \<noteq> ?n" using src tmp by auto
  have nf': "faults w \<subseteq> {Move, Chmod}" using nf by simp
  from update_flash_par_until_move[OF c src tmp nf', of F] obtain s out' where
    u: "update_flash_par F self w =
           bind_io (move ?t ?n) (\<lambda>u5. bind_io (chmod ?n 644) (\<lambda>u6. (\<lambda>w. (Inr s, w))))
             (w\<lparr>files := (files w)(?t \<mapsto> \<lparr>content = ?c, mode = 6 * 8 ^ 2\<rparr>, ?n := None),
                stdout := out'\<rparr>)"
    by blast
  let ?w3 = "w\<lparr>files := (files w)(?t \<mapsto> \<lparr>content = ?c, mode = 6 * 8 ^ 2\<rparr>, ?n := None),
               stdout := out'\<rparr>"
  let ?w4 = "?w3\<lparr>files := (files ?w3)(?t := None, ?n \<mapsto> \<lparr>content = ?c, mode = 6 * 8 ^ 2\<rparr>)\<rparr>"
  let ?w5 = "?w4\<lparr>files := (files ?w4)(?n \<mapsto> \<lparr>content = ?c, mode = 644\<rparr>)\<rparr>"
  have mv: "move ?t ?n ?w3 = (Inr (), ?w4)"
    using nf ne by (simp add: move_def)
  have ch: "chmod ?n 644 ?w4 = (Inr (), ?w5)"
    using nf by (simp add: chmod_def)
  have "update_flash_par F self w = (Inr s, ?w5)"
    unfolding u
    by (simp only: bind_io_Inr[of "move ?t ?n" ?w3, OF mv] bind_io_Inr[of "chmod ?n 644" ?w4, OF ch])
  moreover have "?w5 = w\<lparr>files := (files w)(?t := None, ?n \<mapsto> \<lparr>content = ?c, mode = 644\<rparr>),
                           stdout := out'\<rparr>"
    using ne by (simp add: fun_upd_twist)
  ultimately show ?thesis by (metis (no_types, lifting))
qed

section \<open>Lines, failures and the whole run\<close>







lemma example_world:
  "files (world_with bytes) (file_name example_self) =
     Some \<lparr>content = bytes, mode = 6 * 8 ^ 2 + 4 * 8 + 4\<rparr>"
  "files (world_with bytes) (tmp_name (world_with bytes)) = None"
  "faults (world_with bytes) = {}"
  by (simp_all add: world_with_def example_self_def init_def)


lemma bind_io_InrD:
  "bind_io m f w = (Inr y, w') \<Longrightarrow> \<exists>x w1. m w = (Inr x, w1) \<and> f x w1 = (Inr y, w')"
  by (auto simp: bind_io_def split: prod.splits sum.splits)

lemma write_lines_file_name:
  assumes "write_lines F t n ls self w = (Inr s, w')"
  shows "file_name s = file_name self"
  using assms
proof (induction ls arbitrary: n self w)
  case Nil
  then show ?case by simp
next
  case (Cons l ls)
  obtain a out where rl: "rewrite_line F self (stdout w) l = (a, out)"
    by (cases "rewrite_line F self (stdout w) l")
  show ?case
  proof (cases a)
    case (Inl e)
    with rl Cons.prems show ?thesis by simp
  next
    case (Inr b)
    obtain l' s1 where b: "b = (l', s1)" by (cases b)
    obtain r1 w1 where wt: "write_temp t n l' (w\<lparr>stdout := out\<rparr>) = (r1, w1)"
      by (cases "write_temp t n l' (w\<lparr>stdout := out\<rparr>)")
    have fn1: "file_name s1 = file_name self"
      using rewrite_line_Inr[OF rl[unfolded Inr b]] derived_file_name by blast
    show ?thesis
    proof (cases r1)
      case (Inl e)
      with rl Inr b wt Cons.prems show ?thesis by simp
    next
      case (Inr u)
      with rl \<open>a = Inr b\<close> b wt Cons.prems
      have "write_lines F t (Suc n) ls s1 w1 = (Inr s, w')" by simp
      from Cons.IH[OF this] fn1 show ?thesis by simp
    qed
  qed
qed

lemma bind_io_InlD:
  "bind_io m f w = (Inl e, w') \<Longrightarrow>
     m w = (Inl e, w') \<or> (\<exists>x w1. m w = (Inr x, w1) \<and> f x w1 = (Inl e, w'))"
  by (auto simp: bind_io_def split: prod.splits sum.splits)

lemma write_lines_fault_fails:
  assumes "\<exists>i<length ls. WriteTemp (n + i) \<in> faults w"
  shows "\<exists>e w'. write_lines F t n ls self w = (Inl e, w')"
  using assms
proof (induction ls arbitrary: n self w)
  case Nil
  then show ?case by simp
next
  case (Cons l ls)
  obtain a out where rl: "rewrite_line F self (stdout w) l = (a, out)"
    by (cases "rewrite_line F self (stdout w) l")
  show ?case
  proof (cases a)
    case (Inl e)
    with rl show ?thesis by simp
  next
    case (Inr b)
    obtain l' s1 where b: "b = (l', s1)" by (cases b)
    obtain r1 w1 where wt: "write_temp t n l' (w\<lparr>stdout := out\<rparr>) = (r1, w1)"
      by (cases "write_temp t n l' (w\<lparr>stdout := out\<rparr>)")
    have f1: "faults w1 = faults w" using write_temp_files(2)[OF wt] by simp
    show ?thesis
    proof (cases r1)
      case (Inl e)
      with rl Inr b wt show ?thesis by simp
    next
      case (Inr u)
      then have nf: "WriteTemp n \<notin> faults w"
        using wt by (auto simp: write_temp_def split: if_splits)
      from Cons.prems obtain i where i: "i < Suc (length ls)" "WriteTemp (n + i) \<in> faults w"
        by auto
      with nf obtain j where "i = Suc j" by (cases i) auto
      with i f1 have "\<exists>j<length ls. WriteTemp (Suc n + j) \<in> faults w1" by auto
      from Cons.IH[OF this] obtain e w' where
        "write_lines F t (Suc n) ls s1 w1 = (Inl e, w')" by blast
      with rl \<open>a = Inr b\<close> b wt Inr show ?thesis by simp
    qed
  qed
qed

lemma finish_failure:
  assumes "bind_io (close_handle CloseTemp) (\<lambda>u1.
           bind_io (close_handle CloseFd) (\<lambda>u2.
           bind_io (close_handle CloseSource) (\<lambda>u3.
           bind_io (remove_file n) (\<lambda>u4.
           bind_io (move t n) (\<lambda>u5.
           bind_io (chmod n 644) (\<lambda>u6.
           (\<lambda>w. (Inr s, w)))))))) w = (Inl e, w')"
    and "e \<notin> {OSError Move, FileNotFoundError Move, OSError Chmod, FileNotFoundError Chmod}"
  shows "w' = w"
  using assms
  by (auto dest!: bind_io_InlD simp: close_handle_def remove_file_def move_def chmod_def
      split: if_splits option.splits)

lemma update_flash_par_early_failure:
  assumes u: "update_flash_par F self w = (Inl e, w')"
    and ne: "tmp_name w \<noteq> file_name self"
    and e: "e \<notin> {OSError Move, FileNotFoundError Move, OSError Chmod, FileNotFoundError Chmod}"
  shows "files w' (file_name self) = files w (file_name self)"
proof -
  let ?n = "file_name self"
  from u[unfolded update_flash_par_def, THEN bind_io_InlD]
  show ?thesis
  proof (elim disjE exE conjE)
    assume "mkstemp w = (Inl e, w')"
    then show ?thesis by (auto simp: mkstemp_def split: if_splits)
  next
    fix t w1
    assume m: "mkstemp w = (Inr t, w1)"
      and r: "bind_io (open_w t) (\<lambda>ftemp.
         bind_io (open_r (file_name self)) (\<lambda>f.
         bind_io (write_lines F t 0 f self) (\<lambda>self'.
         bind_io (close_handle CloseTemp) (\<lambda>u1.
         bind_io (close_handle CloseFd) (\<lambda>u2.
         bind_io (close_handle CloseSource) (\<lambda>u3.
         bind_io (remove_file (file_name self')) (\<lambda>u4.
         bind_io (move t (file_name self')) (\<lambda>u5.
         bind_io (chmod (file_name self') 644) (\<lambda>u6.
         (\<lambda>w. (Inr self', w))))))))))) w1 = (Inl e, w')"
    from m have t: "t = tmp_name w" and f1: "files w1 ?n = files w ?n"
      using ne by (auto simp: mkstemp_def split: if_splits)
    have tn: "?n \<noteq> t" using ne t by simp
    from r[THEN bind_io_InlD] show ?thesis
    proof (elim disjE exE conjE)
      assume "open_w t w1 = (Inl e, w')"
      then show ?thesis using f1 by (auto simp: open_w_def split: if_splits)
    next
      fix x w2
      assume ow: "open_w t w1 = (Inr x, w2)"
        and r2: "bind_io (open_r (file_name self)) (\<lambda>f.
         bind_io (write_lines F t 0 f self) (\<lambda>self'.
         bind_io (close_handle CloseTemp) (\<lambda>u1.
         bind_io (close_handle CloseFd) (\<lambda>u2.
         bind_io (close_handle CloseSource) (\<lambda>u3.
         bind_io (remove_file (file_name self')) (\<lambda>u4.
         bind_io (move t (file_name self')) (\<lambda>u5.
         bind_io (chmod (file_name self') 644) (\<lambda>u6.
         (\<lambda>w. (Inr self', w)))))))))) w2 = (Inl e, w')"
      from ow have f2: "files w2 ?n = files w ?n"
        using f1 tn by (auto simp: open_w_def split: if_splits)
      from r2[THEN bind_io_InlD] show ?thesis
      proof (elim disjE exE conjE)
        assume "open_r (file_name self) w2 = (Inl e, w')"
        then show ?thesis using f2 by (auto simp: open_r_def split: if_splits option.splits)
      next
        fix ls w3
        assume orr: "open_r (file_name self) w2 = (Inr ls, w3)"
          and r3: "bind_io (write_lines F t 0 ls self) (\<lambda>self'.
           bind_io (close_handle CloseTemp) (\<lambda>u1.
           bind_io (close_handle CloseFd) (\<lambda>u2.
           bind_io (close_handle CloseSource) (\<lambda>u3.
           bind_io (remove_file (file_name self')) (\<lambda>u4.
           bind_io (move t (file_name self')) (\<lambda>u5.
           bind_io (chmod (file_name self') 644) (\<lambda>u6.
           (\<lambda>w. (Inr self', w))))))))) w3 = (Inl e, w')"
        from orr have w3: "w3 = w2"
          by (auto simp: open_r_def split: if_splits option.splits)
        from r3[THEN bind_io_InlD] show ?thesis
        proof (elim disjE exE conjE)
          assume "write_lines F t 0 ls self w3 = (Inl e, w')"
          from write_lines_other[OF this tn] show ?thesis using f2 w3 by simp
        next
          fix s w4
          assume wl: "write_lines F t 0 ls self w3 = (Inr s, w4)"
            and r4: "bind_io (close_handle CloseTemp) (\<lambda>u1.
             bind_io (close_handle CloseFd) (\<lambda>u2.
             bind_io (close_handle CloseSource) (\<lambda>u3.
             bind_io (remove_file (file_name s)) (\<lambda>u4.
             bind_io (move t (file_name s)) (\<lambda>u5.
             bind_io (chmod (file_name s) 644) (\<lambda>u6.
             (\<lambda>w. (Inr s, w)))))))) w4 = (Inl e, w')"
          from finish_failure[OF r4 e] have "w' = w4" .
          with write_lines_other[OF wl tn] f2 w3 show ?thesis by simp
        qed
      qed
    qed
  qed
qed

lemma write_lines_Inl_error:
  assumes "write_lines F t n ls self w = (Inl e, w')"
  shows "e = ZeroDivisionError \<or> (\<exists>k. e = OSError (WriteTemp k))"
  using assms
proof (induction ls arbitrary: n self w)
  case Nil
  then show ?case by simp
next
  case (Cons l ls)
  obtain a out where rl: "rewrite_line F self (stdout w) l = (a, out)"
    by (cases "rewrite_line F self (stdout w) l")
  show ?case
  proof (cases a)
    case (Inl e')
    with rl Cons.prems have "e' = e" by simp
    with rewrite_line_Inl[OF rl[unfolded Inl]] show ?thesis by simp
  next
    case (Inr b)
    obtain l' s1 where b: "b = (l', s1)" by (cases b)
    obtain r1 w1 where wt: "write_temp t n l' (w\<lparr>stdout := out\<rparr>) = (r1, w1)"
      by (cases "write_temp t n l' (w\<lparr>stdout := out\<rparr>)")
    show ?thesis
    proof (cases r1)
      case (Inl e')
      with rl Inr b wt Cons.prems have "e' = e" by simp
      with wt Inl show ?thesis
        by (auto simp: write_temp_def split: if_splits option.splits)
    next
      case (Inr u)
      with rl \<open>a = Inr b\<close> b wt Cons.prems
      have "write_lines F t (Suc n) ls s1 w1 = (Inl e, w')" by simp
      from Cons.IH[OF this] show ?thesis .
    qed
  qed
qed

lemma open_w_Inr:
  assumes "open_w t w = (Inr x, w')"
  shows "p \<noteq> t \<Longrightarrow> files w' p = files w p" "faults w' = faults w" "OpenTemp \<notin> faults w"
  using assms by (auto simp: open_w_def split: if_splits)

lemma update_flash_par_fails_early:
  assumes sc: "files w (file_name self) = None \<or> OpenSource \<in> faults w
      \<or> Mkstemp \<in> faults w \<or> files w (tmp_name w) \<noteq> None \<or> OpenTemp \<in> faults w
      \<or> (\<exists>f i. files w (file_name self) = Some f \<and> i < length (py_lines (content f))
                \<and> WriteTemp i \<in> faults w)"
    and ne: "tmp_name w \<noteq> file_name self"
  shows "\<exists>e w'. update_flash_par F self w = (Inl e, w')
           \<and> e \<notin> {OSError Move, FileNotFoundError Move, OSError Chmod, FileNotFoundError Chmod}
           \<and> (Mkstemp \<notin> faults w \<and> files w (tmp_name w) = None \<and> OpenTemp \<notin> faults w
                \<and> (files w (file_name self) = None \<or> OpenSource \<in> faults w)
               \<longrightarrow> e = FileNotFoundError OpenSource \<or> e = OSError OpenSource)"
proof -
  let ?n = "file_name self"
  obtain r0 w1 where m: "mkstemp w = (r0, w1)" by (cases "mkstemp w")
  show ?thesis
  proof (cases r0)
    case (Inl e)
    with m have "e = OSError Mkstemp" and "Mkstemp \<in> faults w \<or> files w (tmp_name w) \<noteq> None"
      by (auto simp: mkstemp_def split: if_splits)
    then have "e \<notin> {OSError Move, FileNotFoundError Move, OSError Chmod, FileNotFoundError Chmod}"
      and "\<not> (Mkstemp \<notin> faults w \<and> files w (tmp_name w) = None)"
      by simp_all
    moreover have "update_flash_par F self w = (Inl e, w1)"
      unfolding update_flash_par_def
      by (simp only: bind_io_Inl[of mkstemp w, OF m[unfolded Inl]])
    ultimately show ?thesis by blast
  next
    case (Inr t)
    with m have t: "t = tmp_name w" and f1: "files w1 ?n = files w ?n"
      and fl1: "faults w1 = faults w"
      and mk: "Mkstemp \<notin> faults w" "files w (tmp_name w) = None"
      using ne by (auto simp: mkstemp_def split: if_splits)
    have m': "mkstemp w = (Inr t, w1)" using m Inr by simp
    obtain r1 w2 where ow: "open_w t w1 = (r1, w2)" by (cases "open_w t w1")
    show ?thesis
    proof (cases r1)
      case (Inl e)
      with ow have "e = OSError OpenTemp" and "OpenTemp \<in> faults w"
        using fl1 by (auto simp: open_w_def split: if_splits)
      then have "e \<notin> {OSError Move, FileNotFoundError Move, OSError Chmod, FileNotFoundError Chmod}"
        and "\<not> OpenTemp \<notin> faults w"
        by simp_all
      moreover have "update_flash_par F self w = (Inl e, w2)"
        unfolding update_flash_par_def
        by (simp only: bind_io_Inr[of mkstemp w, OF m'] bind_io_Inl[of "open_w t" w1, OF ow[unfolded Inl]])
      ultimately show ?thesis by blast
    next
      case (Inr x)
      have ow': "open_w t w1 = (Inr x, w2)" using ow Inr by simp
      have tn: "?n \<noteq> t" using ne t by simp
      have f2: "files w2 ?n = files w ?n"
        using open_w_Inr(1)[OF ow' tn] f1 by simp
      have fl2: "faults w2 = faults w"
        using open_w_Inr(2)[OF ow'] fl1 by simp
      have ot: "OpenTemp \<notin> faults w"
        using open_w_Inr(3)[OF ow'] fl1 by simp
      obtain r2 w3 where orr: "open_r ?n w2 = (r2, w3)" by (cases "open_r ?n w2")
      show ?thesis
      proof (cases r2)
        case (Inl e)
        with orr have eo: "e = FileNotFoundError OpenSource \<or> e = OSError OpenSource"
          by (auto simp: open_r_def split: if_splits option.splits)
        then have "e \<notin> {OSError Move, FileNotFoundError Move, OSError Chmod, FileNotFoundError Chmod}"
          by auto
        moreover note eo
        moreover have "update_flash_par F self w = (Inl e, w3)"
          unfolding update_flash_par_def
          by (simp only: bind_io_Inr[of mkstemp w, OF m'] bind_io_Inr[of "open_w t" w1, OF ow']
              bind_io_Inl[of "open_r ?n" w2, OF orr[unfolded Inl]])
        ultimately show ?thesis by blast
      next
        case (Inr ls)
        with orr obtain f where src: "files w ?n = Some f" and ls: "ls = py_lines (content f)"
          and os: "OpenSource \<notin> faults w" and w3: "w3 = w2"
          using f2 fl2 by (auto simp: open_r_def split: if_splits option.splits)
        have orr': "open_r ?n w2 = (Inr ls, w3)" using orr Inr by simp
        from sc src os mk ot obtain i where "i < length ls" "WriteTemp i \<in> faults w"
          using ls by auto
        then have "\<exists>i<length ls. WriteTemp (0 + i) \<in> faults w3"
          using fl2 w3 by auto
        from write_lines_fault_fails[OF this] obtain e w4 where
          wl: "write_lines F t 0 ls self w3 = (Inl e, w4)" by blast
        have "update_flash_par F self w = (Inl e, w4)"
          unfolding update_flash_par_def
          by (simp only: bind_io_Inr[of mkstemp w, OF m'] bind_io_Inr[of "open_w t" w1, OF ow']
              bind_io_Inr[of "open_r ?n" w2, OF orr']
              bind_io_Inl[of "write_lines F t 0 ls self" w3, OF wl])
        moreover have "e \<notin> {OSError Move, FileNotFoundError Move, OSError Chmod, FileNotFoundError Chmod}"
          using write_lines_Inl_error[OF wl] by auto
        moreover have "\<not> (files w ?n = None \<or> OpenSource \<in> faults w)"
          using src os by simp
        ultimately show ?thesis by blast
      qed
    qed
  qed
qed








section \<open>Claims on the derived quantities\<close>

lemma example_derived:
  "compute_turnover_time_parameters (compute_B0 example_self) = Inr example_derived"
  by (simp add: compute_turnover_time_parameters_def compute_B0_def example_self_def
      example_derived_def init_def py_truediv_def np_truediv_def Let_def)









section \<open>Claims on the line rewriter\<close>









section \<open>Claims on the file\<close>




text \<open>
  Claim C7, as amended. As stated the claim covers any failure path; when the final
  move fails the original has already been removed (the counterexample below). What
  holds, the temporary name being another path than the parameter file: whenever
  \<^verbatim>\<open>update_flash_par\<close> fails in a call other than the final move or chmod, the
  file at the original path is what it was. In particular, if the source file
  cannot be opened, or the temporary file cannot be created, opened or written,
  the operation fails and the original is unchanged; when only the source cannot
  be opened the error is that of \<^verbatim>\<open>open\<close> (not found, or another I/O error).
\<close>

theorem failure_before_move_keeps_original:
  assumes ne: "tmp_name w \<noteq> file_name self"
  shows "(\<forall>e w'. update_flash_par F self w = (Inl e, w')
            \<and> e \<notin> {OSError Move, FileNotFoundError Move, OSError Chmod, FileNotFoundError Chmod}
          \<longrightarrow> files w' (file_name self) = files w (file_name self))
    \<and> (files w (file_name self) = None \<or> OpenSource \<in> faults w
        \<or> Mkstemp \<in> faults w \<or> files w (tmp_name w) \<noteq> None \<or> OpenTemp \<in> faults w
        \<or> (\<exists>f i. files w (file_name self) = Some f \<and> i < length (py_lines (content f))
                  \<and> WriteTemp i \<in> faults w)
        \<longrightarrow> (\<exists>e w'. update_flash_par F self w = (Inl e, w')
               \<and> files w' (file_name self) = files w (file_name self)
               \<and> (Mkstemp \<notin> faults w \<and> files w (tmp_name w) = None \<and> OpenTemp \<notin> faults w
                    \<and> (files w (file_name self) = None \<or> OpenSource \<in> faults w)
                   \<longrightarrow> e = FileNotFoundError OpenSource \<or> e = OSError OpenSource)))"
proof (intro conjI allI impI)
  fix e w'
  assume "update_flash_par F self w = (Inl e, w')
            \<and> e \<notin> {OSError Move, FileNotFoundError Move, OSError Chmod, FileNotFoundError Chmod}"
  then show "files w' (file_name self) = files w (file_name self)"
    using update_flash_par_early_failure[OF _ ne] by blast
next
  assume sc: "files w (file_name self) = None \<or> OpenSource \<in> faults w
        \<or> Mkstemp \<in> faults w \<or> files w (tmp_name w) \<noteq> None \<or> OpenTemp \<in> faults w
        \<or> (\<exists>f i. files w (file_name self) = Some f \<and> i < length (py_lines (content f))
                  \<and> WriteTemp i \<in> faults w)"
  from update_flash_par_fails_early[OF sc ne, of F] obtain e w' where
    u: "update_flash_par F self w = (Inl e, w')"
    and e: "e \<notin> {OSError Move, FileNotFoundError Move, OSError Chmod, FileNotFoundError Chmod}"
    and k: "Mkstemp \<notin> faults w \<and> files w (tmp_name w) = None \<and> OpenTemp \<notin> faults w
                \<and> (files w (file_name self) = None \<or> OpenSource \<in> faults w)
               \<longrightarrow> e = FileNotFoundError OpenSource \<or> e = OSError OpenSource"
    by blast
  from update_flash_par_early_failure[OF u ne e]
  have "files w' (file_name self) = files w (file_name self)" .
  with u k show "\<exists>e w'. update_flash_par F self w = (Inl e, w')
               \<and> files w' (file_name self) = files w (file_name self)
               \<and> (Mkstemp \<notin> faults w \<and> files w (tmp_name w) = None \<and> OpenTemp \<notin> faults w
                    \<and> (files w (file_name self) = None \<or> OpenSource \<in> faults w)
                   \<longrightarrow> e = FileNotFoundError OpenSource \<or> e = OSError OpenSource)"
    by blast
qed

theorem failure_before_move_keeps_original_witness:
  "tmp_name ((world_with [])\<lparr>files := Map.empty\<rparr>) \<noteq> file_name example_self
   \<and> files ((world_with [])\<lparr>files := Map.empty\<rparr>) (file_name example_self) = None
   \<and> (\<exists>e w'. update_flash_par example_format example_self
                 ((world_with [])\<lparr>files := Map.empty\<rparr>) = (Inl e, w')
          \<and> e = FileNotFoundError OpenSource
          \<and> e \<notin> {OSError Move, FileNotFoundError Move, OSError Chmod, FileNotFoundError Chmod}
          \<and> files w' (file_name example_self) = None)"
proof -
  let ?w = "(world_with [])\<lparr>files := Map.empty\<rparr>"
  have ne: "tmp_name ?w \<noteq> file_name example_self"
    by (simp add: world_with_def example_self_def init_def)
  have src: "files ?w (file_name example_self) = None" by simp
  have ok: "Mkstemp \<notin> faults ?w" "files ?w (tmp_name ?w) = None" "OpenTemp \<notin> faults ?w"
    "OpenSource \<notin> faults ?w"
    by (simp_all add: world_with_def)
  from failure_before_move_keeps_original[OF ne, of example_format] src
  obtain e w' where u: "update_flash_par example_format example_self ?w = (Inl e, w')"
    and f: "files w' (file_name example_self) = files ?w (file_name example_self)"
    and k: "Mkstemp \<notin> faults ?w \<and> files ?w (tmp_name ?w) = None \<and> OpenTemp \<notin> faults ?w
                    \<and> (files ?w (file_name example_self) = None \<or> OpenSource \<in> faults ?w)
                   \<longrightarrow> e = FileNotFoundError OpenSource \<or> e = OSError OpenSource"
    by blast
  from k ok src have e: "e = FileNotFoundError OpenSource \<or> e = OSError OpenSource" by blast
  have "fst (update_flash_par example_format example_self ?w) = Inl (FileNotFoundError OpenSource)"
    by (simp add: update_flash_par_def bind_io_def mkstemp_def open_w_def open_r_def
        world_with_def example_self_def init_def)
  with u have "e \<noteq> OSError OpenSource" by simp
  with e have e': "e = FileNotFoundError OpenSource" by simp
  then have "e \<notin> {OSError Move, FileNotFoundError Move, OSError Chmod, FileNotFoundError Chmod}"
    by simp
  with u f e' ne src show ?thesis by auto
qed

text \<open>
  The move fails: the run ends with the error of the move and no file is left at the
  original path.
\<close>

theorem failed_move_loses_original_counterexample:
  "files ((world_with (''tmax = 999.0'' @ [NL]))\<lparr>faults := {Move}\<rparr>) ''flash.par''
     = Some \<lparr>content = ''tmax = 999.0'' @ [NL], mode = 6 * 8 ^ 2 + 4 * 8 + 4\<rparr>
   \<and> fst (update_flash_par example_format example_self
             ((world_with (''tmax = 999.0'' @ [NL]))\<lparr>faults := {Move}\<rparr>))
     = Inl (OSError Move)
   \<and> files (snd (update_flash_par example_format example_self
                   ((world_with (''tmax = 999.0'' @ [NL]))\<lparr>faults := {Move}\<rparr>))) ''flash.par''
     = None"
proof -
  let ?b = "''tmax = 999.0'' @ [NL]"
  let ?w = "(world_with ?b)\<lparr>faults := {Move}\<rparr>"
  have fn: "file_name example_self = ''flash.par''"
    by (simp add: example_self_def init_def)
  have src: "files ?w (file_name example_self) = Some \<lparr>content = ?b, mode = 6 * 8 ^ 2 + 4 * 8 + 4\<rparr>"
    and tmp: "files ?w (tmp_name ?w) = None"
    and nf: "faults ?w \<subseteq> {Move, Chmod}"
    by (simp_all add: world_with_def fn)
  from update_flash_par_until_move[OF example_derived src tmp nf, of example_format]
  obtain s out' w3 where
    u: "update_flash_par example_format example_self ?w =
           bind_io (move (tmp_name ?w) (file_name example_self)) (\<lambda>u5.
           bind_io (chmod (file_name example_self) 644) (\<lambda>u6.
           (\<lambda>w. (Inr s, w)))) w3"
    and w3: "w3 = ?w\<lparr>files := (files ?w)(tmp_name ?w \<mapsto>
                        \<lparr>content = concat (map (rewritten example_format example_self)
                                              (py_lines (content \<lparr>content = ?b, mode = 6 * 8 ^ 2 + 4 * 8 + 4\<rparr>))),
                         mode = 6 * 8 ^ 2\<rparr>,
                      file_name example_self := None),
               stdout := out'\<rparr>"
    by blast
  have mv: "move (tmp_name ?w) (file_name example_self) w3 = (Inl (OSError Move), w3)"
    unfolding w3 by (simp add: move_def)
  have "update_flash_par example_format example_self ?w = (Inl (OSError Move), w3)"
    unfolding u
    by (rule bind_io_Inl[of "move (tmp_name ?w) (file_name example_self)" w3, OF mv])
  moreover have "files w3 ''flash.par'' = None"
    unfolding w3 by (simp add: fn)
  ultimately show ?thesis using src unfolding fn by simp
qed

text \<open>
  Claim C8. After a successful rewrite the permission bits should be \<^verbatim>\<open>0o644\<close>,
  that is \<open>6 * 8\<^sup>2 + 4 * 8 + 4 = 420\<close>. The program passes the decimal literal
  \<^verbatim>\<open>644\<close> to \<^verbatim>\<open>os.chmod\<close>: on every successful run the mode of the file is
  644, which is \<^verbatim>\<open>0o1204\<close> and not \<^verbatim>\<open>0o644\<close>.
\<close>

theorem chmod_mode_is_decimal_644:
  assumes "update_flash_par F self w = (Inr s, w')"
  shows "\<exists>f'. files w' (file_name self) = Some f' \<and> mode f' = 644
            \<and> mode f' \<noteq> 6 * 8 ^ 2 + 4 * 8 + 4"
  using assms unfolding update_flash_par_def
  by (auto dest!: bind_io_InrD write_lines_file_name simp: chmod_def
      split: if_splits option.splits)

theorem chmod_mode_is_decimal_644_witness:
  "\<exists>s w'. update_flash_par example_format example_self (world_with (''tmax = 999.0'' @ [NL]))
             = (Inr s, w')
     \<and> (\<exists>f'. files w' (file_name example_self) = Some f' \<and> mode f' = 644
              \<and> mode f' \<noteq> 6 * 8 ^ 2 + 4 * 8 + 4)"
proof -
  from update_flash_par_ok[OF example_derived example_world, where F = example_format]
  obtain s w' where
    u: "update_flash_par example_format example_self (world_with (''tmax = 999.0'' @ [NL]))
          = (Inr s, w')"
    by blast
  from chmod_mode_is_decimal_644[OF u] u show ?thesis by blast
qed




end
